theory Spec2Isabelle
  imports Main "HOL-Library.Word"
begin

section \<open>Data model (main.go, lines 113-130)\<close>

text \<open>
  Go strings are byte sequences; \<open>string\<close> is a list of 8-bit characters. The \<open>int\<close>
  fields are only stored, never computed with, so they are mathematical integers. A Go map
  is a partial function; Go's nil map and empty map are both \<open>Map.empty\<close>, and a nil slice
  and an empty slice are both \<open>[]\<close>.
\<close>

type_synonym bytes = string

record Platform =
  Architecture :: string
  OS :: string

record Layer =
  Layer_MediaType :: string
  Layer_Size :: int
  Layer_Digest :: string

record Manifest =
  Annotations :: "string \<rightharpoonup> string"
  Digest :: string
  MediaType :: string
  Platform :: Platform
  Size :: int

text \<open>The zero values \<open>Platform{}\<close>, \<open>Layer{}\<close> and \<open>Manifest{}\<close>.\<close>

definition zero_Platform :: Platform where
  "zero_Platform = \<lparr>Architecture = [], OS = []\<rparr>"

definition zero_Layer :: Layer where
  "zero_Layer = \<lparr>Layer_MediaType = [], Layer_Size = 0, Layer_Digest = []\<rparr>"

definition zero_Manifest :: Manifest where
  "zero_Manifest =
     \<lparr>Annotations = Map.empty, Digest = [], MediaType = [], Platform = zero_Platform, Size = 0\<rparr>"

section \<open>Manifest resolver (main.go, lines 157-164)\<close>

text \<open>
  \<^verbatim>\<open>for _, m := range manifests { if m.Platform == platform { return m, true } }
  return Manifest{}, false\<close>
  Go's \<open>==\<close> on the struct \<open>Platform\<close> compares both string fields by value.
\<close>

fun FindManifest :: "Manifest list \<Rightarrow> Platform \<Rightarrow> Manifest \<times> bool" where
  "FindManifest [] platform = (zero_Manifest, False)"
| "FindManifest (m # manifests) platform =
     (if Platform m = platform then (m, True) else FindManifest manifests platform)"

section \<open>The outside world\<close>

text \<open>
  Everything the program reaches outside its own code is a field of \<open>world\<close>: the HTTP
  client, the JSON reader of \<open>encoding/json\<close>, the \<open>tar\<close> binary found on the path, the
  temporary-directory call and the launched child. Each effectful field sees the events that
  happened so far, so a registry may answer the same request differently on a later call.
  The program's state is that list of events, passed through every function and returned
  extended.
\<close>

record request =
  Method :: string
  URL :: string
  Header :: "string \<rightharpoonup> string"

text \<open>
  A response body is a stream: the bytes it delivers and the read error that ends it early,
  if any (\<open>None\<close> is a clean end of file).
\<close>

record body =
  Data :: bytes
  ReadErr :: "string option"

record response =
  StatusCode :: int
  Body :: body

text \<open>
  A JSON value as \<open>encoding/json\<close> scans it: a number keeps its literal text, a string is
  unquoted, an object keeps its members in document order, repeated keys included.
\<close>

datatype json =
    JNull
  | JBool bool
  | JNumber string
  | JString string
  | JArray "json list"
  | JObject "(string \<times> json) list"

text \<open>
  The state in which a started process ended, as \<open>os.ProcessState\<close> reports it: the 8-bit
  exit status of a process that exited, or death by a signal.
\<close>

datatype wait_status = Exited "8 word" | Signaled

datatype run_result = Ran wait_status | NotRun string

text \<open>The error of \<open>exec.Cmd.Run\<close>: an \<open>*exec.ExitError\<close> or any other error.\<close>

datatype run_error = ExitError wait_status | OtherRunError string

datatype decode_error =
    ReadValueError string
  | UnmarshalTypeError string string

datatype go_error =
    TransportError string
  | NewRequestError string
  | UnexpectedStatus int
  | DecodeError decode_error
  | ReadError string
  | ManifestNotFound
  | UntarFailed run_error
  | MkdirTempError string
  | RunError run_error

record Cmd =
  Path :: string
  Args :: "string list"
  Dir :: string
  Env :: "string list"
  Chroot :: string
  NewPidNamespace :: bool

datatype event =
    HttpDo request
  | Log string "go_error option"
  | RunTar "string list" bytes
  | FsCreate string
  | MkdirTemp string
  | RunChild Cmd

record tar_outcome =
  tar_result :: run_result
  tar_created :: "string list"

record world =
  GOARCH :: string
  GOOS :: string
  url_parse_error :: "string \<Rightarrow> string option"
  http_do :: "event list \<Rightarrow> request \<Rightarrow> string + response"
  read_json :: "body \<Rightarrow> string + json"
  unmarshal_Manifests :: "json \<Rightarrow> Manifest list \<Rightarrow> decode_error + Manifest list"
  unmarshal_Layers :: "json \<Rightarrow> Layer list \<Rightarrow> decode_error + Layer list"
  run_tar :: "event list \<Rightarrow> string list \<Rightarrow> bytes \<Rightarrow> tar_outcome"
  mkdir_temp :: "event list \<Rightarrow> string \<Rightarrow> string + string"
  run_child :: "event list \<Rightarrow> Cmd \<Rightarrow> run_result"

text \<open>
  \<^item> \<open>url_parse_error\<close>: the error of \<open>http.NewRequest\<close> for a URL it cannot parse.
  \<^item> \<open>http_do\<close>: \<open>http.DefaultClient.Do\<close>, a transport error or the final response.
  \<^item> \<open>read_json\<close>: the first JSON value \<open>json.Decoder\<close> reads from the stream, or the
    error that stops it (syntax error, end of file, read error). Bytes after the first value
    are not looked at.
  \<^item> \<open>unmarshal_Manifests\<close>, \<open>unmarshal_Layers\<close>: \<open>encoding/json\<close> decoding one JSON value
    into a Go value of type \<open>[]Manifest\<close> or \<open>[]Layer\<close> that holds the second argument.
  \<^item> \<open>run_tar\<close>: one run of \<open>tar\<close> with the given arguments and standard input: how it
    ended and the paths of the filesystem entries it created.
  \<^item> \<open>mkdir_temp\<close>: \<open>os.MkdirTemp("", pattern)\<close>.
  \<^item> \<open>run_child\<close>: starting the command and waiting for it.
\<close>

section \<open>Library behaviour the program relies on\<close>

subsection \<open>os/exec\<close>

text \<open>
  \<open>Cmd.Run\<close> returns nil when the process exited with status 0, an \<open>ExitError\<close> when it
  exited otherwise or was killed, and another error when it could not be run.
  \<open>ExitError.ExitCode()\<close> is the exit status, or -1 for a process killed by a signal.
  The argument vector the child receives is \<open>Args\<close>, or \<open>[Path]\<close> when \<open>Args\<close> is empty
  (\<open>Cmd.argv\<close>); the documentation of \<open>Cmd.Args\<close> says it holds the command line
  arguments "including the command as Args[0]".
\<close>

fun Cmd_Run_error :: "run_result \<Rightarrow> run_error option" where
  "Cmd_Run_error (Ran (Exited s)) = (if s = 0 then None else Some (ExitError (Exited s)))"
| "Cmd_Run_error (Ran Signaled) = Some (ExitError Signaled)"
| "Cmd_Run_error (NotRun e) = Some (OtherRunError e)"

fun ExitCode :: "wait_status \<Rightarrow> int" where
  "ExitCode (Exited s) = uint s"
| "ExitCode Signaled = - 1"

definition argv :: "Cmd \<Rightarrow> string list" where
  "argv c = (if Args c = [] then [Path c] else Args c)"

text \<open>\<open>os.Exit(code)\<close> ends the process with the low 8 bits of \<open>code\<close> as its exit status.\<close>

definition os_Exit :: "int \<Rightarrow> 8 word" where
  "os_Exit code = word_of_int code"

subsection \<open>encoding/json\<close>

text \<open>
  A JSON object member is stored into the struct field whose name (from the \<open>json:"..."\<close>
  tag) equals the key, or equals it under case folding. All field names of this program are
  ASCII, and the only non-ASCII characters that fold to an ASCII letter are the Kelvin sign
  (UTF-8 E2 84 AA, folds to K) and the long s (UTF-8 C5 BF, folds to S).
\<close>

definition upper_ascii :: "char \<Rightarrow> char" where
  "upper_ascii c =
     (case map_of (zip ''abcdefghijklmnopqrstuvwxyz'' ''ABCDEFGHIJKLMNOPQRSTUVWXYZ'') c of
        Some u \<Rightarrow> u | None \<Rightarrow> c)"

fun key_matches :: "string \<Rightarrow> string \<Rightarrow> bool" where
  "key_matches [] [] = True"
| "key_matches (c # cs) [] = False"
| "key_matches [] (n # ns) = False"
| "key_matches (c # cs) (n # ns) =
     (if upper_ascii c = upper_ascii n then key_matches cs ns
      else if upper_ascii n = CHR ''K'' \<and> c = CHR 0xE2 \<and> take 2 cs = [CHR 0x84, CHR 0xAA]
        then key_matches (drop 2 cs) ns
      else if upper_ascii n = CHR ''S'' \<and> c = CHR 0xC5 \<and> take 1 cs = [CHR 0xBF]
        then key_matches (drop 1 cs) ns
      else False)"

fun json_kind :: "json \<Rightarrow> string" where
  "json_kind JNull = ''null''"
| "json_kind (JBool b) = ''bool''"
| "json_kind (JNumber n) = ''number''"
| "json_kind (JString s) = ''string''"
| "json_kind (JArray xs) = ''array''"
| "json_kind (JObject kvs) = ''object''"

text \<open>
  Decoding into a Go string that holds \<open>cur\<close>: a JSON string replaces it, \<open>null\<close> leaves it,
  any other value is an \<open>UnmarshalTypeError\<close>.
\<close>

fun unmarshal_string :: "json \<Rightarrow> string \<Rightarrow> decode_error + string" where
  "unmarshal_string (JString s) cur = Inr s"
| "unmarshal_string JNull cur = Inr cur"
| "unmarshal_string j cur = Inl (UnmarshalTypeError (json_kind j) ''string'')"

text \<open>
  Decoding the members of a JSON object into a struct with the single field \<open>name\<close>, whose
  value is decoded by \<open>f\<close>: members are visited in document order, a member whose key
  matches is decoded into the field (a repeated key decodes again, into the value already
  there), every other member is skipped whatever its value. The first type error is the
  error of the whole decoding.
\<close>

fun unmarshal_members ::
  "(json \<Rightarrow> 'a \<Rightarrow> decode_error + 'a) \<Rightarrow> string \<Rightarrow> (string \<times> json) list \<Rightarrow> 'a \<Rightarrow> decode_error + 'a"
where
  "unmarshal_members f name [] v = Inr v"
| "unmarshal_members f name ((k, j) # kvs) v =
     (if key_matches k name
      then (case f j v of Inl e \<Rightarrow> Inl e | Inr v' \<Rightarrow> unmarshal_members f name kvs v')
      else unmarshal_members f name kvs v)"

text \<open>
  Decoding a JSON value into such a struct: an object decodes its members, \<open>null\<close> leaves
  the struct as it is, any other value is an \<open>UnmarshalTypeError\<close>.
\<close>

fun unmarshal_struct ::
  "(json \<Rightarrow> 'a \<Rightarrow> decode_error + 'a) \<Rightarrow> string \<Rightarrow> json \<Rightarrow> 'a \<Rightarrow> decode_error + 'a"
where
  "unmarshal_struct f name (JObject kvs) v = unmarshal_members f name kvs v"
| "unmarshal_struct f name JNull v = Inr v"
| "unmarshal_struct f name j v = Inl (UnmarshalTypeError (json_kind j) ''struct'')"

text \<open>\<open>json.NewDecoder(res.Body).Decode(&body)\<close> for a struct \<open>body\<close> that holds \<open>v\<close>.\<close>

definition Decode ::
  "world \<Rightarrow> (json \<Rightarrow> 'a \<Rightarrow> decode_error + 'a) \<Rightarrow> string \<Rightarrow> body \<Rightarrow> 'a \<Rightarrow> decode_error + 'a"
where
  "Decode w f name b v =
     (case read_json w b of
        Inl e \<Rightarrow> Inl (ReadValueError e)
      | Inr j \<Rightarrow> unmarshal_struct f name j v)"

section \<open>Registry client\<close>

text \<open>
  A Go function returning \<open>(T, error)\<close> returns a pair of a value and an optional error, so
  that what is returned beside an error stays visible; the event list is threaded through.
\<close>

definition token_url :: "string \<Rightarrow> string \<Rightarrow> string" where
  "token_url library img =
     ''https://auth.docker.io/token?service=registry.docker.io&scope=repository:''
       @ library @ ''/'' @ img @ '':pull''"

definition manifest_url :: "string \<Rightarrow> string \<Rightarrow> string \<Rightarrow> string" where
  "manifest_url library img ref =
     ''https://registry.hub.docker.com/v2/'' @ library @ ''/'' @ img @ ''/manifests/'' @ ref"

definition blob_url :: "string \<Rightarrow> string \<Rightarrow> string \<Rightarrow> string" where
  "blob_url library img digest =
     ''https://registry.hub.docker.com/v2/'' @ library @ ''/'' @ img @ ''/blobs/'' @ digest"

definition token_request :: "string \<Rightarrow> string \<Rightarrow> request" where
  "token_request library img =
     \<lparr>Method = ''GET'', URL = token_url library img, Header = Map.empty\<rparr>"

definition manifests_request :: "string \<Rightarrow> string \<Rightarrow> string \<Rightarrow> request" where
  "manifests_request library img token =
     \<lparr>Method = ''GET'', URL = manifest_url library img ''latest'',
      Header = [''Authorization'' \<mapsto> ''Bearer '' @ token,
                ''Accept'' \<mapsto> ''application/vnd.docker.distribution.manifest.v2+json'']\<rparr>"

definition layers_request :: "string \<Rightarrow> string \<Rightarrow> Manifest \<Rightarrow> string \<Rightarrow> request" where
  "layers_request library img m token =
     \<lparr>Method = ''GET'', URL = manifest_url library img (Digest m),
      Header = [''Authorization'' \<mapsto> ''Bearer '' @ token]\<rparr>"

definition blob_request :: "string \<Rightarrow> string \<Rightarrow> Layer \<Rightarrow> string \<Rightarrow> request" where
  "blob_request library img l token =
     \<lparr>Method = ''GET'', URL = blob_url library img (Layer_Digest l),
      Header = [''Authorization'' \<mapsto> ''Bearer '' @ token]\<rparr>"

text \<open>
  main.go, lines 97-111. \<open>http.DefaultClient.Get\<close> builds the request itself and returns
  the error of \<open>http.NewRequest\<close> or of \<open>Do\<close>. The status code of the response is not read.
\<close>

definition FetchRegistryToken ::
  "world \<Rightarrow> string \<Rightarrow> string \<Rightarrow> event list \<Rightarrow> (string \<times> go_error option) \<times> event list"
where
  "FetchRegistryToken w library img h =
     (case url_parse_error w (token_url library img) of
        Some e \<Rightarrow> (([], Some (NewRequestError e)), h)
      | None \<Rightarrow>
          (let h' = h @ [HttpDo (token_request library img)] in
           case http_do w h (token_request library img) of
             Inl e \<Rightarrow> (([], Some (TransportError e)), h')
           | Inr res \<Rightarrow>
               (case Decode w unmarshal_string ''token'' (Body res) [] of
                  Inl e \<Rightarrow> (([], Some (DecodeError e)), h')
                | Inr token \<Rightarrow> ((token, None), h'))))"

text \<open>main.go, lines 132-155.\<close>

definition ListManifests ::
  "world \<Rightarrow> string \<Rightarrow> string \<Rightarrow> string \<Rightarrow> event list \<Rightarrow>
     (Manifest list \<times> go_error option) \<times> event list"
where
  "ListManifests w library img token h =
     (case url_parse_error w (manifest_url library img ''latest'') of
        Some e \<Rightarrow> (([], Some (NewRequestError e)), h)
      | None \<Rightarrow>
          (let h' = h @ [HttpDo (manifests_request library img token)] in
           case http_do w h (manifests_request library img token) of
             Inl e \<Rightarrow> (([], Some (TransportError e)), h')
           | Inr res \<Rightarrow>
               if StatusCode res \<noteq> 200
               then (([], Some (UnexpectedStatus (StatusCode res))), h')
               else (case Decode w (unmarshal_Manifests w) ''manifests'' (Body res) [] of
                       Inl e \<Rightarrow> (([], Some (DecodeError e)), h')
                     | Inr manifests \<Rightarrow> ((manifests, None), h'))))"

text \<open>main.go, lines 166-188.\<close>

definition ListLayers ::
  "world \<Rightarrow> string \<Rightarrow> string \<Rightarrow> Manifest \<Rightarrow> string \<Rightarrow> event list \<Rightarrow>
     (Layer list \<times> go_error option) \<times> event list"
where
  "ListLayers w library img m token h =
     (case url_parse_error w (manifest_url library img (Digest m)) of
        Some e \<Rightarrow> (([], Some (NewRequestError e)), h)
      | None \<Rightarrow>
          (let h' = h @ [HttpDo (layers_request library img m token)] in
           case http_do w h (layers_request library img m token) of
             Inl e \<Rightarrow> (([], Some (TransportError e)), h')
           | Inr res \<Rightarrow>
               if StatusCode res \<noteq> 200
               then (([], Some (UnexpectedStatus (StatusCode res))), h')
               else (case Decode w (unmarshal_Layers w) ''layers'' (Body res) [] of
                       Inl e \<Rightarrow> (([], Some (DecodeError e)), h')
                     | Inr layers \<Rightarrow> ((layers, None), h'))))"

text \<open>
  main.go, lines 190-206. The body is not decoded: \<open>io.ReadAll\<close> returns the bytes read
  and the read error, if any, and \<open>FetchLayer\<close> returns both as they are.
\<close>

definition FetchLayer ::
  "world \<Rightarrow> string \<Rightarrow> string \<Rightarrow> Layer \<Rightarrow> string \<Rightarrow> event list \<Rightarrow>
     (bytes \<times> go_error option) \<times> event list"
where
  "FetchLayer w library img l token h =
     (case url_parse_error w (blob_url library img (Layer_Digest l)) of
        Some e \<Rightarrow> (([], Some (NewRequestError e)), h)
      | None \<Rightarrow>
          (let h' = h @ [HttpDo (blob_request library img l token)] in
           case http_do w h (blob_request library img l token) of
             Inl e \<Rightarrow> (([], Some (TransportError e)), h')
           | Inr res \<Rightarrow>
               if StatusCode res \<noteq> 200
               then (([], Some (UnexpectedStatus (StatusCode res))), h')
               else ((Data (Body res), map_option ReadError (ReadErr (Body res))), h')))"

section \<open>Layer materializer (main.go, lines 60-95)\<close>

definition tar_args :: "string \<Rightarrow> string list" where
  "tar_args dir = [''-xzf'', ''-'', ''-C'', dir]"

definition download_line :: "string \<Rightarrow> string \<Rightarrow> Layer \<Rightarrow> string" where
  "download_line library img layer =
     ''downloading layer '' @ library @ ''/'' @ img @ '': '' @ Layer_Digest layer"

text \<open>
  \<open>exec.Command("tar", "-xzf", "-", "-C", dir)\<close> run with the layer's bytes on its standard
  input (lines 88-92). The bytes go to \<open>tar\<close> as they were fetched; the program does not look
  into the archive.
\<close>

definition untar :: "world \<Rightarrow> string \<Rightarrow> bytes \<Rightarrow> event list \<Rightarrow> run_error option \<times> event list" where
  "untar w dir data h =
     (let out = run_tar w h (tar_args dir) data in
      (Cmd_Run_error (tar_result out),
       h @ [RunTar (tar_args dir) data] @ map FsCreate (tar_created out)))"

text \<open>The loop of lines 80-93.\<close>

fun FetchImageTo_layers ::
  "world \<Rightarrow> string \<Rightarrow> string \<Rightarrow> string \<Rightarrow> string \<Rightarrow> Layer list \<Rightarrow> event list \<Rightarrow>
     go_error option \<times> event list"
where
  "FetchImageTo_layers w library img dir token [] h = (None, h)"
| "FetchImageTo_layers w library img dir token (layer # layers) h =
     (case FetchLayer w library img layer token
             (h @ [Log (download_line library img layer) None]) of
        ((data, Some err), h1) \<Rightarrow> (Some err, h1)
      | ((data, None), h1) \<Rightarrow>
          (case untar w dir data h1 of
             (Some err, h2) \<Rightarrow> (Some (UntarFailed err), h2)
           | (None, h2) \<Rightarrow> FetchImageTo_layers w library img dir token layers h2))"

definition FetchImageTo ::
  "world \<Rightarrow> string \<Rightarrow> string \<Rightarrow> string \<Rightarrow> event list \<Rightarrow> go_error option \<times> event list"
where
  "FetchImageTo w library img dir h =
     (case FetchRegistryToken w library img h of
        ((token, Some err), h1) \<Rightarrow> (Some err, h1)
      | ((token, None), h1) \<Rightarrow>
          (case ListManifests w library img token h1 of
             ((manifests, Some err), h2) \<Rightarrow> (Some err, h2)
           | ((manifests, None), h2) \<Rightarrow>
               (case FindManifest manifests \<lparr>Architecture = GOARCH w, OS = GOOS w\<rparr> of
                  (manifest, False) \<Rightarrow> (Some ManifestNotFound, h2)
                | (manifest, True) \<Rightarrow>
                    (case ListLayers w library img manifest token h2 of
                       ((layers, Some err), h3) \<Rightarrow> (Some err, h3)
                     | ((layers, None), h3) \<Rightarrow>
                         FetchImageTo_layers w library img dir token layers h3))))"

section \<open>Entry point and isolation launcher (main.go, lines 18-58)\<close>

text \<open>
  \<open>main\<close> after \<open>flag.Parse\<close>: \<open>img\<close> is the value of the \<open>-image\<close> flag and \<open>args\<close> are the
  positional arguments \<open>flag.Args()\<close>. The result is the exit status of the program and the
  events that happened. \<open>log.Fatal\<close> logs and exits with status 1; returning from \<open>main\<close>
  exits with status 0. The child inherits the standard streams of the program.
\<close>

definition child_Cmd :: "string \<Rightarrow> string list \<Rightarrow> Cmd" where
  "child_Cmd jail args =
     \<lparr>Path = hd args, Args = tl args, Dir = ''/'',
      Env = [''/usr/local/sbin:/usr/local/bin:/usr/sbin:/usr/bin:/sbin:/bin''],
      Chroot = jail, NewPidNamespace = True\<rparr>"

definition main :: "world \<Rightarrow> string \<Rightarrow> string list \<Rightarrow> event list \<Rightarrow> 8 word \<times> event list" where
  "main w img args h =
     (if length args < 1 then (os_Exit 1, h @ [Log ''command is required'' None])
      else
        (case mkdir_temp w h ''jail-'' of
           Inl e \<Rightarrow>
             (os_Exit 1,
              h @ [MkdirTemp ''jail-'', Log ''failed to create jail: '' (Some (MkdirTempError e))])
         | Inr jail \<Rightarrow>
             (case FetchImageTo w ''library'' img jail (h @ [MkdirTemp ''jail-'']) of
                (Some err, h1) \<Rightarrow> (os_Exit 1, h1 @ [Log ''failed to fetch image: '' (Some err)])
              | (None, h1) \<Rightarrow>
                  (let h2 = h1 @ [RunChild (child_Cmd jail args)] in
                   case Cmd_Run_error (run_child w h1 (child_Cmd jail args)) of
                     None \<Rightarrow> (0, h2)
                   | Some (ExitError st) \<Rightarrow>
                       (os_Exit (ExitCode st), h2 @ [Log ''ERROR: '' (Some (RunError (ExitError st)))])
                   | Some (OtherRunError e) \<Rightarrow>
                       (os_Exit 1, h2 @ [Log ''ERROR: '' (Some (RunError (OtherRunError e)))])))))"

section \<open>Events of the layer loop\<close>

text \<open>
  The events of one layer that is fetched and extracted, in the order they happen: the log
  line naming the layer, the blob request, the run of \<open>tar\<close> on the bytes \<open>fst dc\<close>, and
  the entries \<open>snd dc\<close> which that run creates.
\<close>

definition layer_events ::
  "string \<Rightarrow> string \<Rightarrow> string \<Rightarrow> string \<Rightarrow> Layer \<Rightarrow> bytes \<times> string list \<Rightarrow> event list"
where
  "layer_events library img dir token layer dc =
     [Log (download_line library img layer) None,
      HttpDo (blob_request library img layer token),
      RunTar (tar_args dir) (fst dc)] @ map FsCreate (snd dc)"

text \<open>
  The events before layer \<open>k\<close> is begun, when the layers before it were fetched and
  extracted with the bytes and created entries \<open>dcs\<close>.
\<close>

definition before_layer ::
  "string \<Rightarrow> string \<Rightarrow> string \<Rightarrow> string \<Rightarrow> Layer list \<Rightarrow> (bytes \<times> string list) list \<Rightarrow>
     event list \<Rightarrow> nat \<Rightarrow> event list"
where
  "before_layer library img dir token layers dcs h k =
     h @ concat (map2 (layer_events library img dir token) (take k layers) (take k dcs))"



fun launches :: "event list \<Rightarrow> Cmd list" where
  "launches [] = []"
| "launches (RunChild c # es) = c # launches es"
| "launches (e # es) = launches es"

section \<open>Vocabulary of the path-safety requirement\<close>












section \<open>Bodies that decode into the token struct\<close>

text \<open>
  The JSON values that \<open>unmarshal_struct unmarshal_string ''token''\<close> accepts (shown below):
  \<open>null\<close>, and an object each of whose members matching \<open>token\<close> is a string or \<open>null\<close>.
\<close>

fun string_or_null :: "json \<Rightarrow> bool" where
  "string_or_null (JString s) = True"
| "string_or_null JNull = True"
| "string_or_null j = False"

fun token_body :: "json \<Rightarrow> bool" where
  "token_body JNull = True"
| "token_body (JObject kvs) =
     list_all (\<lambda>(k, v). key_matches k ''token'' \<longrightarrow> string_or_null v) kvs"
| "token_body j = False"

section \<open>Scripted worlds for the closed examples\<close>

text \<open>
  A world played from tables: the n-th request of a run gets the n-th reply (a request past
  the end of the script meets a refused connection); the JSON reader and the slice decoders
  look the input up and fail on anything else; \<open>tar\<close> looks its input up and exits with
  status 2 on anything else; the host is linux/amd64.
\<close>

fun http_count :: "event list \<Rightarrow> nat" where
  "http_count [] = 0"
| "http_count (HttpDo r # es) = Suc (http_count es)"
| "http_count (e # es) = http_count es"

definition scripted_world ::
  "(string + response) list \<Rightarrow> (bytes \<times> json) list \<Rightarrow> (json \<times> Manifest list) list \<Rightarrow>
     (json \<times> Layer list) list \<Rightarrow> (bytes \<times> tar_outcome) list \<Rightarrow> run_result \<Rightarrow> world"
where
  "scripted_world replies jsons manifests layers tars child =
     \<lparr>GOARCH = ''amd64'', GOOS = ''linux'',
      url_parse_error = (\<lambda>u. None),
      http_do = (\<lambda>h r. if http_count h < length replies then replies ! http_count h
                         else Inl ''connection refused''),
      read_json = (\<lambda>b. case map_of jsons (Data b) of
                          Some j \<Rightarrow> Inr j | None \<Rightarrow> Inl ''invalid character''),
      unmarshal_Manifests = (\<lambda>j cur. case map_of manifests j of
                          Some ms \<Rightarrow> Inr ms
                        | None \<Rightarrow> Inl (UnmarshalTypeError (json_kind j) ''[]main.Manifest'')),
      unmarshal_Layers = (\<lambda>j cur. case map_of layers j of
                          Some ls \<Rightarrow> Inr ls
                        | None \<Rightarrow> Inl (UnmarshalTypeError (json_kind j) ''[]main.Layer'')),
      run_tar = (\<lambda>h args data. case map_of tars data of
                          Some out \<Rightarrow> out
                        | None \<Rightarrow> \<lparr>tar_result = Ran (Exited 2), tar_created = []\<rparr>),
      mkdir_temp = (\<lambda>h pattern. Inr (''/tmp/'' @ pattern @ ''1'')),
      run_child = (\<lambda>h c. child)\<rparr>"

definition ok_reply :: "bytes \<Rightarrow> string + response" where
  "ok_reply b = Inr \<lparr>StatusCode = 200, Body = \<lparr>Data = b, ReadErr = None\<rparr>\<rparr>"

definition status_reply :: "int \<Rightarrow> bytes \<Rightarrow> string + response" where
  "status_reply s b = Inr \<lparr>StatusCode = s, Body = \<lparr>Data = b, ReadErr = None\<rparr>\<rparr>"

text \<open>
  A registry serving one image: a manifest list with an arm64 and an amd64 manifest, and a
  manifest with two layers. The replies are, in the order the program asks: the token, the
  manifest list, the manifest, and the blobs.
\<close>

definition demo_token_text :: bytes where
  "demo_token_text = ''{\"token\":\"t\"}''"

definition demo_token_json :: json where
  "demo_token_json = JObject [(''token'', JString ''t'')]"

definition demo_manifests_text :: bytes where
  "demo_manifests_text =
     ''{\"manifests\":[{\"digest\":\"m0\",\"platform\":{\"architecture\":\"arm64\",\"os\":\"linux\"}},''
     @ ''{\"digest\":\"m1\",\"platform\":{\"architecture\":\"amd64\",\"os\":\"linux\"}}]}''"

definition demo_manifests_array :: json where
  "demo_manifests_array =
     JArray
       [JObject [(''digest'', JString ''m0''),
                 (''platform'', JObject [(''architecture'', JString ''arm64''),
                                         (''os'', JString ''linux'')])],
        JObject [(''digest'', JString ''m1''),
                 (''platform'', JObject [(''architecture'', JString ''amd64''),
                                         (''os'', JString ''linux'')])]]"

definition demo_manifest :: "string \<Rightarrow> string \<Rightarrow> Manifest" where
  "demo_manifest d arch =
     zero_Manifest\<lparr>Digest := d, Platform := \<lparr>Architecture = arch, OS = ''linux''\<rparr>\<rparr>"

definition demo_layers_text :: bytes where
  "demo_layers_text = ''{\"layers\":[{\"digest\":\"l1\"},{\"digest\":\"l2\"}]}''"

definition demo_layers_array :: json where
  "demo_layers_array =
     JArray [JObject [(''digest'', JString ''l1'')], JObject [(''digest'', JString ''l2'')]]"

definition demo_layer :: "string \<Rightarrow> Layer" where
  "demo_layer d = zero_Layer\<lparr>Layer_Digest := d\<rparr>"

definition demo_world ::
  "(string + response) list \<Rightarrow> (bytes \<times> tar_outcome) list \<Rightarrow> run_result \<Rightarrow> world"
where
  "demo_world blobs tars child =
     scripted_world
       ([ok_reply demo_token_text, ok_reply demo_manifests_text, ok_reply demo_layers_text] @ blobs)
       [(demo_token_text, demo_token_json),
        (demo_manifests_text, JObject [(''manifests'', demo_manifests_array)]),
        (demo_layers_text, JObject [(''layers'', demo_layers_array)])]
       [(demo_manifests_array, [demo_manifest ''m0'' ''arm64'', demo_manifest ''m1'' ''amd64''])]
       [(demo_layers_array, [demo_layer ''l1'', demo_layer ''l2''])]
       tars child"

text \<open>The same registry when its manifest list has the arm64 manifest only.\<close>

definition arm_manifests_text :: bytes where
  "arm_manifests_text =
     ''{\"manifests\":[{\"digest\":\"m0\",\"platform\":{\"architecture\":\"arm64\",\"os\":\"linux\"}}]}''"

definition arm_manifests_array :: json where
  "arm_manifests_array =
     JArray
       [JObject [(''digest'', JString ''m0''),
                 (''platform'', JObject [(''architecture'', JString ''arm64''),
                                         (''os'', JString ''linux'')])]]"

definition arm_only_world :: world where
  "arm_only_world =
     scripted_world
       [ok_reply demo_token_text, ok_reply arm_manifests_text]
       [(demo_token_text, demo_token_json),
        (arm_manifests_text, JObject [(''manifests'', arm_manifests_array)])]
       [(arm_manifests_array, [demo_manifest ''m0'' ''arm64''])]
       [] [] (Ran (Exited 0))"

definition extracted :: "string list \<Rightarrow> tar_outcome" where
  "extracted paths = \<lparr>tar_result = Ran (Exited 0), tar_created = paths\<rparr>"


definition lenient_tar :: "(bytes \<times> tar_outcome) list" where
  "lenient_tar =
     [(''b1'', extracted [''/tmp/jail-1/bin'']), (''b2'', extracted [''/tmp/jail-1/bin/sh''])]"

definition strict_tar :: "(bytes \<times> tar_outcome) list" where
  "strict_tar = [(''b1'', extracted [''/tmp/jail-1/bin''])]"

definition blobs_world :: "(string + response) list \<Rightarrow> (bytes \<times> tar_outcome) list \<Rightarrow> world" where
  "blobs_world replies tars = scripted_world replies [] [] [] tars (Ran (Exited 0))"

lemmas demo_simps =
  demo_world_def demo_token_text_def demo_token_json_def demo_manifests_text_def
  demo_manifests_array_def demo_manifest_def demo_layers_text_def demo_layers_array_def
  demo_layer_def extracted_def blobs_world_def lenient_tar_def strict_tar_def
  arm_manifests_text_def arm_manifests_array_def arm_only_world_def

section \<open>Manifest resolver: first match\<close>

lemma FindManifest_no_match:
  "(\<forall>m \<in> set ms. Platform m \<noteq> p) \<Longrightarrow> FindManifest ms p = (zero_Manifest, False)"
  by (induction ms) auto

lemma FindManifest_first_match:
  "i < length ms \<Longrightarrow> Platform (ms ! i) = p \<Longrightarrow> (\<forall>j < i. Platform (ms ! j) \<noteq> p) \<Longrightarrow>
     FindManifest ms p = (ms ! i, True)"
proof (induction ms arbitrary: i)
  case Nil
  then show ?case by simp
next
  case (Cons m ms)
  show ?case
  proof (cases i)
    case 0
    with Cons.prems show ?thesis by simp
  next
    case (Suc k)
    from Cons.prems Suc have head: "Platform m \<noteq> p" by auto
    from Cons.prems Suc have "k < length ms" "Platform (ms ! k) = p" by auto
    moreover from Cons.prems Suc have "\<forall>j < k. Platform (ms ! j) \<noteq> p" by auto
    ultimately have "FindManifest ms p = (ms ! k, True)" by (rule Cons.IH)
    with head Suc show ?thesis by simp
  qed
qed

lemma FindManifest_found:
  "snd (FindManifest ms p) \<Longrightarrow>
     \<exists>i < length ms. FindManifest ms p = (ms ! i, True) \<and> Platform (ms ! i) = p \<and>
        (\<forall>j < i. Platform (ms ! j) \<noteq> p)"
proof (induction ms)
  case Nil
  then show ?case by simp
next
  case (Cons m ms)
  show ?case
  proof (cases "Platform m = p")
    case True
    then have "FindManifest (m # ms) p = ((m # ms) ! 0, True) \<and> Platform ((m # ms) ! 0) = p \<and>
        (\<forall>j < 0. Platform ((m # ms) ! j) \<noteq> p)" by simp
    then show ?thesis by blast
  next
    case False
    with Cons.prems have "snd (FindManifest ms p)" by simp
    from Cons.IH [OF this] obtain i where i: "i < length ms"
      "FindManifest ms p = (ms ! i, True)" "Platform (ms ! i) = p"
      "\<forall>j < i. Platform (ms ! j) \<noteq> p" by blast
    have "\<forall>j < Suc i. Platform ((m # ms) ! j) \<noteq> p"
    proof (intro allI impI)
      fix j assume "j < Suc i"
      with False i(4) show "Platform ((m # ms) ! j) \<noteq> p" by (cases j) auto
    qed
    with False i have "Suc i < length (m # ms) \<and>
        FindManifest (m # ms) p = ((m # ms) ! Suc i, True) \<and>
        Platform ((m # ms) ! Suc i) = p \<and> (\<forall>j < Suc i. Platform ((m # ms) ! j) \<noteq> p)"
      by simp
    then show ?thesis by blast
  qed
qed

text \<open>
  Claim C1. For every manifest list and every query platform, \<open>FindManifest\<close> scans the list
  from the front and returns the first manifest whose platform equals the query (value
  equality of operating system and architecture) together with \<open>ok = true\<close>: whenever it
  reports \<open>true\<close> the manifest returned sits at an index whose platform matches and before
  which no platform matches, and every such index is the one returned. In particular the
  single matching manifest is returned when exactly one position matches, and when no
  manifest matches the result is the zero manifest with \<open>ok = false\<close>.
\<close>

theorem FindManifest_first_match_or_not_found:
  "(\<forall>i < length ms. Platform (ms ! i) = p \<and> (\<forall>j < i. Platform (ms ! j) \<noteq> p) \<longrightarrow>
        FindManifest ms p = (ms ! i, True))
   \<and> (\<forall>i < length ms. Platform (ms ! i) = p \<and> (\<forall>j < length ms. Platform (ms ! j) = p \<longrightarrow> j = i) \<longrightarrow>
        FindManifest ms p = (ms ! i, True))
   \<and> (snd (FindManifest ms p) \<longrightarrow>
        (\<exists>i < length ms. FindManifest ms p = (ms ! i, True) \<and> Platform (ms ! i) = p \<and>
           (\<forall>j < i. Platform (ms ! j) \<noteq> p)))
   \<and> ((\<forall>m \<in> set ms. Platform m \<noteq> p) \<longrightarrow> FindManifest ms p = (zero_Manifest, False))
   \<and> (snd (FindManifest ms p) \<longleftrightarrow> (\<exists>m \<in> set ms. Platform m = p))"
proof (intro conjI allI impI)
  fix i assume i: "i < length ms"
    and f: "Platform (ms ! i) = p \<and> (\<forall>j < i. Platform (ms ! j) \<noteq> p)"
  show "FindManifest ms p = (ms ! i, True)"
    by (rule FindManifest_first_match [OF i conjunct1 [OF f] conjunct2 [OF f]])
next
  fix i assume i: "i < length ms"
    and u: "Platform (ms ! i) = p \<and> (\<forall>j < length ms. Platform (ms ! j) = p \<longrightarrow> j = i)"
  have before: "\<forall>j < i. Platform (ms ! j) \<noteq> p"
  proof (intro allI impI notI)
    fix j assume j: "j < i" and eq: "Platform (ms ! j) = p"
    from j i have "j < length ms" by simp
    with u eq have "j = i" by simp
    with j show False by simp
  qed
  show "FindManifest ms p = (ms ! i, True)"
    by (rule FindManifest_first_match [OF i conjunct1 [OF u] before])
next
  assume "snd (FindManifest ms p)"
  then show "\<exists>i < length ms. FindManifest ms p = (ms ! i, True) \<and> Platform (ms ! i) = p \<and>
      (\<forall>j < i. Platform (ms ! j) \<noteq> p)"
    by (rule FindManifest_found)
next
  assume "\<forall>m \<in> set ms. Platform m \<noteq> p"
  then show "FindManifest ms p = (zero_Manifest, False)"
    by (rule FindManifest_no_match)
next
  show "snd (FindManifest ms p) \<longleftrightarrow> (\<exists>m \<in> set ms. Platform m = p)"
    by (induction ms) simp_all
qed

theorem FindManifest_first_match_or_not_found_witness:
  "FindManifest
     [zero_Manifest\<lparr>Digest := ''sha256:aa'', Platform := \<lparr>Architecture = ''arm64'', OS = ''linux''\<rparr>\<rparr>,
      zero_Manifest\<lparr>Digest := ''sha256:bb'', Platform := \<lparr>Architecture = ''amd64'', OS = ''linux''\<rparr>\<rparr>,
      zero_Manifest\<lparr>Digest := ''sha256:cc'', Platform := \<lparr>Architecture = ''amd64'', OS = ''linux''\<rparr>\<rparr>]
     \<lparr>Architecture = ''amd64'', OS = ''linux''\<rparr>
   = (zero_Manifest\<lparr>Digest := ''sha256:bb'', Platform := \<lparr>Architecture = ''amd64'', OS = ''linux''\<rparr>\<rparr>, True)
   \<and> FindManifest
     [zero_Manifest\<lparr>Digest := ''sha256:aa'', Platform := \<lparr>Architecture = ''arm64'', OS = ''linux''\<rparr>\<rparr>]
     \<lparr>Architecture = ''amd64'', OS = ''linux''\<rparr>
   = (zero_Manifest, False)"
proof -
  let ?a = "zero_Manifest\<lparr>Digest := ''sha256:aa'', Platform := \<lparr>Architecture = ''arm64'', OS = ''linux''\<rparr>\<rparr>"
  let ?b = "zero_Manifest\<lparr>Digest := ''sha256:bb'', Platform := \<lparr>Architecture = ''amd64'', OS = ''linux''\<rparr>\<rparr>"
  let ?c = "zero_Manifest\<lparr>Digest := ''sha256:cc'', Platform := \<lparr>Architecture = ''amd64'', OS = ''linux''\<rparr>\<rparr>"
  let ?p = "\<lparr>Architecture = ''amd64'', OS = ''linux''\<rparr>"
  have first: "(1::nat) < length [?a, ?b, ?c]"
    "Platform ([?a, ?b, ?c] ! 1) = ?p \<and> (\<forall>j < (1::nat). Platform ([?a, ?b, ?c] ! j) \<noteq> ?p)"
    by simp_all
  have none: "\<forall>m \<in> set [?a]. Platform m \<noteq> ?p" by simp
  have "FindManifest [?a, ?b, ?c] ?p = ([?a, ?b, ?c] ! 1, True)"
    by (rule FindManifest_first_match_or_not_found
          [of "[?a, ?b, ?c]" ?p, THEN conjunct1, rule_format, OF first])
  moreover have "FindManifest [?a] ?p = (zero_Manifest, False)"
    by (rule FindManifest_first_match_or_not_found
          [of "[?a]" ?p, THEN conjunct2, THEN conjunct2, THEN conjunct2, THEN conjunct1,
           THEN mp, OF none])
  ultimately show ?thesis by simp
qed
section \<open>Registry client: failures of a call\<close>

lemma unmarshal_members_no_match:
  "\<forall>k \<in> set (map fst kvs). \<not> key_matches k name \<Longrightarrow> unmarshal_members f name kvs v = Inr v"
  by (induction kvs) auto

lemma Decode_object_without_member:
  "read_json w b = Inr (JObject kvs) \<Longrightarrow> \<forall>k \<in> set (map fst kvs). \<not> key_matches k name \<Longrightarrow>
     Decode w f name b v = Inr v"
  by (simp add: Decode_def unmarshal_members_no_match)

lemma Decode_unreadable:
  "read_json w b = Inl e \<Longrightarrow> Decode w f name b v = Inl (ReadValueError e)"
  by (simp add: Decode_def)

lemmas scripted_simps =
  scripted_world_def ok_reply_def status_reply_def upper_ascii_def

text \<open>
  Claim C5, as amended. For every response to the manifest-list request (\<open>ListManifests\<close>),
  the by-digest manifest request (\<open>ListLayers\<close>) and the blob request (\<open>FetchLayer\<close>), a
  status other than 200 makes the call return no descriptors or bytes and an error that
  carries the status. For \<open>ListManifests\<close> and \<open>ListLayers\<close>, a 200 response whose body
  cannot be read as JSON, or does not decode, makes the call return no descriptors and a
  decode error. \<open>FetchLayer\<close> does not decode: on a 200 response it returns the bytes of the
  body as they are, beside the read error of the stream if there is one.
\<close>

theorem registry_call_status_and_decode_errors:
  "(url_parse_error w (manifest_url library img ''latest'') = None \<and>
    http_do w h (manifests_request library img token) = Inr res \<longrightarrow>
      (StatusCode res \<noteq> 200 \<longrightarrow>
         fst (ListManifests w library img token h) = ([], Some (UnexpectedStatus (StatusCode res)))) \<and>
      (StatusCode res = 200 \<longrightarrow>
         (\<forall>e. read_json w (Body res) = Inl e \<longrightarrow>
            fst (ListManifests w library img token h) = ([], Some (DecodeError (ReadValueError e)))) \<and>
         (\<forall>d. Decode w (unmarshal_Manifests w) ''manifests'' (Body res) [] = Inl d \<longrightarrow>
            fst (ListManifests w library img token h) = ([], Some (DecodeError d)))))
   \<and> (url_parse_error w (manifest_url library img (Digest m)) = None \<and>
    http_do w h (layers_request library img m token) = Inr res \<longrightarrow>
      (StatusCode res \<noteq> 200 \<longrightarrow>
         fst (ListLayers w library img m token h) = ([], Some (UnexpectedStatus (StatusCode res)))) \<and>
      (StatusCode res = 200 \<longrightarrow>
         (\<forall>e. read_json w (Body res) = Inl e \<longrightarrow>
            fst (ListLayers w library img m token h) = ([], Some (DecodeError (ReadValueError e)))) \<and>
         (\<forall>d. Decode w (unmarshal_Layers w) ''layers'' (Body res) [] = Inl d \<longrightarrow>
            fst (ListLayers w library img m token h) = ([], Some (DecodeError d)))))
   \<and> (url_parse_error w (blob_url library img (Layer_Digest l)) = None \<and>
    http_do w h (blob_request library img l token) = Inr res \<longrightarrow>
      (StatusCode res \<noteq> 200 \<longrightarrow>
         fst (FetchLayer w library img l token h) = ([], Some (UnexpectedStatus (StatusCode res)))) \<and>
      (StatusCode res = 200 \<longrightarrow>
         fst (FetchLayer w library img l token h)
           = (Data (Body res), map_option ReadError (ReadErr (Body res)))))"
  by (simp add: ListManifests_def ListLayers_def FetchLayer_def Decode_unreadable)

theorem registry_call_status_and_decode_errors_witness:
  "fst (ListManifests (scripted_world [status_reply 404 ''not found''] [] [] [] [] (Ran (Exited 0)))
          ''library'' ''alpine'' ''tok'' [])
     = ([], Some (UnexpectedStatus 404))
   \<and> fst (ListLayers (scripted_world [status_reply 401 ''denied''] [] [] [] [] (Ran (Exited 0)))
          ''library'' ''alpine'' zero_Manifest ''tok'' [])
     = ([], Some (UnexpectedStatus 401))
   \<and> fst (FetchLayer (scripted_world [status_reply 429 ''slow down''] [] [] [] [] (Ran (Exited 0)))
          ''library'' ''alpine'' zero_Layer ''tok'' [])
     = ([], Some (UnexpectedStatus 429))
   \<and> fst (ListManifests (scripted_world [ok_reply ''<html>''] [] [] [] [] (Ran (Exited 0)))
          ''library'' ''alpine'' ''tok'' [])
     = ([], Some (DecodeError (ReadValueError ''invalid character'')))
   \<and> fst (ListLayers (scripted_world [ok_reply ''<html>''] [] [] [] [] (Ran (Exited 0)))
          ''library'' ''alpine'' zero_Manifest ''tok'' [])
     = ([], Some (DecodeError (ReadValueError ''invalid character'')))
   \<and> fst (FetchLayer (scripted_world [ok_reply ''<html>''] [] [] [] [] (Ran (Exited 0)))
          ''library'' ''alpine'' zero_Layer ''tok'' [])
     = (''<html>'', None)"
proof -
  let ?bad = "\<lambda>s b. scripted_world [status_reply s b] [] [] [] [] (Ran (Exited 0))"
  let ?ok = "scripted_world [ok_reply ''<html>''] [] [] [] [] (Ran (Exited 0))"
  let ?r = "\<lambda>s b. \<lparr>StatusCode = s, Body = \<lparr>Data = b, ReadErr = None\<rparr>\<rparr>"
  have "fst (ListManifests (?bad 404 ''not found'') ''library'' ''alpine'' ''tok'' [])
          = ([], Some (UnexpectedStatus 404))"
    using registry_call_status_and_decode_errors
      [of "?bad 404 ''not found''" "''library''" "''alpine''" "[]" "''tok''" "?r 404 ''not found''"]
    by (simp add: scripted_simps)
  moreover have "fst (ListLayers (?bad 401 ''denied'') ''library'' ''alpine'' zero_Manifest ''tok'' [])
          = ([], Some (UnexpectedStatus 401))"
    using registry_call_status_and_decode_errors
      [of "?bad 401 ''denied''" "''library''" "''alpine''" "[]" "''tok''" "?r 401 ''denied''"
          zero_Manifest]
    by (simp add: scripted_simps)
  moreover have "fst (FetchLayer (?bad 429 ''slow down'') ''library'' ''alpine'' zero_Layer ''tok'' [])
          = ([], Some (UnexpectedStatus 429))"
    using registry_call_status_and_decode_errors
      [of "?bad 429 ''slow down''" "''library''" "''alpine''" "[]" "''tok''" "?r 429 ''slow down''"
          zero_Manifest zero_Layer]
    by (simp add: scripted_simps)
  moreover have "fst (ListManifests ?ok ''library'' ''alpine'' ''tok'' [])
          = ([], Some (DecodeError (ReadValueError ''invalid character'')))
      \<and> fst (ListLayers ?ok ''library'' ''alpine'' zero_Manifest ''tok'' [])
          = ([], Some (DecodeError (ReadValueError ''invalid character'')))
      \<and> fst (FetchLayer ?ok ''library'' ''alpine'' zero_Layer ''tok'' []) = (''<html>'', None)"
    using registry_call_status_and_decode_errors
      [of ?ok "''library''" "''alpine''" "[]" "''tok''" "?r 200 ''<html>''" zero_Manifest zero_Layer]
    by (simp add: scripted_simps)
  ultimately show ?thesis by simp
qed

text \<open>
  Claim C5 as stated fails for \<open>FetchLayer\<close>: a 200 response to the blob request whose body
  is not JSON (the reader rejects it) does not make the call fail; the bytes are returned
  with no error.
\<close>

theorem FetchLayer_accepts_body_that_is_not_structured_data:
  "read_json (scripted_world [ok_reply ''<html>''] [] [] [] [] (Ran (Exited 0)))
       \<lparr>Data = ''<html>'', ReadErr = None\<rparr> = Inl ''invalid character''
   \<and> http_do (scripted_world [ok_reply ''<html>''] [] [] [] [] (Ran (Exited 0))) []
       (blob_request ''library'' ''alpine'' zero_Layer ''tok'')
       = Inr \<lparr>StatusCode = 200, Body = \<lparr>Data = ''<html>'', ReadErr = None\<rparr>\<rparr>
   \<and> FetchLayer (scripted_world [ok_reply ''<html>''] [] [] [] [] (Ran (Exited 0)))
       ''library'' ''alpine'' zero_Layer ''tok'' []
       = ((''<html>'', None), [HttpDo (blob_request ''library'' ''alpine'' zero_Layer ''tok'')])"
  by (simp add: FetchLayer_def scripted_simps)

section \<open>Registry client: the token request and absent members\<close>

text \<open>
  Claim C8. \<open>FetchRegistryToken\<close> fails with an error when the request cannot be sent
  (transport failure) and when the body of the response cannot be decoded; when the body
  decodes and has no member for the token field (a JSON object none of whose keys matches
  \<open>token\<close>, or \<open>null\<close>) it returns the empty token with no error.
\<close>

theorem FetchRegistryToken_errors_and_absent_token:
  "(\<forall>e. url_parse_error w (token_url library img) = Some e \<longrightarrow>
        fst (FetchRegistryToken w library img h) = ([], Some (NewRequestError e)))
   \<and> (url_parse_error w (token_url library img) = None \<longrightarrow>
        (\<forall>e. http_do w h (token_request library img) = Inl e \<longrightarrow>
           fst (FetchRegistryToken w library img h) = ([], Some (TransportError e))) \<and>
        (\<forall>res. http_do w h (token_request library img) = Inr res \<longrightarrow>
           (\<forall>e. read_json w (Body res) = Inl e \<longrightarrow>
              fst (FetchRegistryToken w library img h)
                = ([], Some (DecodeError (ReadValueError e)))) \<and>
           (\<forall>d. Decode w unmarshal_string ''token'' (Body res) [] = Inl d \<longrightarrow>
              fst (FetchRegistryToken w library img h) = ([], Some (DecodeError d))) \<and>
           (\<forall>kvs. read_json w (Body res) = Inr (JObject kvs) \<and>
                  (\<forall>k \<in> set (map fst kvs). \<not> key_matches k ''token'') \<longrightarrow>
              fst (FetchRegistryToken w library img h) = ([], None)) \<and>
           (read_json w (Body res) = Inr JNull \<longrightarrow>
              fst (FetchRegistryToken w library img h) = ([], None))))"
  by (simp add: FetchRegistryToken_def Decode_unreadable Decode_object_without_member)
     (simp add: Decode_def)

theorem FetchRegistryToken_errors_and_absent_token_witness:
  "fst (FetchRegistryToken (scripted_world [] [] [] [] [] (Ran (Exited 0))) ''library'' ''alpine'' [])
     = ([], Some (TransportError ''connection refused''))
   \<and> fst (FetchRegistryToken (scripted_world [ok_reply ''{\"tok''] [] [] [] [] (Ran (Exited 0)))
          ''library'' ''alpine'' [])
     = ([], Some (DecodeError (ReadValueError ''invalid character'')))
   \<and> fst (FetchRegistryToken
          (scripted_world [status_reply 401 ''{\"errors\":[]}'']
             [(''{\"errors\":[]}'', JObject [(''errors'', JArray [])])] [] [] [] (Ran (Exited 0)))
          ''library'' ''alpine'' [])
     = ([], None)"
proof -
  let ?down = "scripted_world [] [] [] [] [] (Ran (Exited 0))"
  let ?cut = "scripted_world [ok_reply ''{\"tok''] [] [] [] [] (Ran (Exited 0))"
  let ?err = "scripted_world [status_reply 401 ''{\"errors\":[]}'']
             [(''{\"errors\":[]}'', JObject [(''errors'', JArray [])])] [] [] [] (Ran (Exited 0))"
  have "fst (FetchRegistryToken ?down ''library'' ''alpine'' [])
          = ([], Some (TransportError ''connection refused''))"
    using FetchRegistryToken_errors_and_absent_token [of ?down "''library''" "''alpine''" "[]"]
    by (simp add: scripted_simps)
  moreover have "fst (FetchRegistryToken ?cut ''library'' ''alpine'' [])
          = ([], Some (DecodeError (ReadValueError ''invalid character'')))"
    using FetchRegistryToken_errors_and_absent_token [of ?cut "''library''" "''alpine''" "[]"]
    by (simp add: scripted_simps)
  moreover have "fst (FetchRegistryToken ?err ''library'' ''alpine'' []) = ([], None)"
    using FetchRegistryToken_errors_and_absent_token [of ?err "''library''" "''alpine''" "[]"]
    by (simp add: scripted_simps)
  ultimately show ?thesis by simp
qed

text \<open>
  When does a body decode into the token struct? Exactly when the reader finds a JSON value
  that is \<open>null\<close> or an object each of whose members matching \<open>token\<close> is a string or
  \<open>null\<close>.
\<close>

lemma unmarshal_string_ok_iff:
  "(\<exists>t. unmarshal_string j cur = Inr t) \<longleftrightarrow> (j = JNull \<or> (\<exists>s. j = JString s))"
  by (cases j) auto

lemma unmarshal_members_string_ok_iff:
  "(\<exists>t. unmarshal_members unmarshal_string name kvs cur = Inr t) \<longleftrightarrow>
     (\<forall>(k, j) \<in> set kvs. key_matches k name \<longrightarrow> j = JNull \<or> (\<exists>s. j = JString s))"
proof (induction kvs arbitrary: cur)
  case Nil
  show ?case by simp
next
  case (Cons kv kvs)
  obtain k j where kv: "kv = (k, j)" by (cases kv)
  show ?case
  proof (cases "key_matches k name")
    case False
    with kv Cons.IH [of cur] show ?thesis by simp
  next
    case True
    show ?thesis
    proof (cases "unmarshal_string j cur")
      case (Inl e)
      then have "\<not> (j = JNull \<or> (\<exists>s. j = JString s))"
        using unmarshal_string_ok_iff [of j cur] by simp
      with kv True Inl show ?thesis by simp
    next
      case (Inr t)
      then have "j = JNull \<or> (\<exists>s. j = JString s)"
        using unmarshal_string_ok_iff [of j cur] by auto
      with kv True Inr Cons.IH [of t] show ?thesis by simp
    qed
  qed
qed

lemma string_or_null_iff: "string_or_null j \<longleftrightarrow> (j = JNull \<or> (\<exists>s. j = JString s))"
  by (cases j) simp_all

lemma Decode_token_ok_iff:
  "(\<exists>t. Decode w unmarshal_string ''token'' b [] = Inr t) \<longleftrightarrow>
     (\<exists>j. read_json w b = Inr j \<and> token_body j)"
proof (cases "read_json w b")
  case (Inl e)
  then show ?thesis by (simp add: Decode_def)
next
  case (Inr j)
  have "(\<exists>t. unmarshal_struct unmarshal_string ''token'' j [] = Inr t) \<longleftrightarrow> token_body j"
  proof (cases j)
    case (JObject kvs)
    have "(\<forall>(k, v) \<in> set kvs. key_matches k ''token'' \<longrightarrow> v = JNull \<or> (\<exists>s. v = JString s))
        \<longleftrightarrow> list_all (\<lambda>(k, v). key_matches k ''token'' \<longrightarrow> string_or_null v) kvs"
      by (simp add: list_all_iff string_or_null_iff)
    with JObject show ?thesis
      using unmarshal_members_string_ok_iff [of "''token''" kvs "[]"]
      by simp
  qed simp_all
  with Inr show ?thesis by (simp add: Decode_def)
qed

text \<open>
  Claim C9, as amended. \<open>FetchRegistryToken\<close> never reads the status code of the token
  response. For every response whose body decodes into the token struct (the JSON value read
  from it is \<open>null\<close>, or an object each of whose members matching \<open>token\<close> is a string or
  \<open>null\<close>) it returns the decoded token, possibly empty, with no error, whatever the
  status; a response that differs only in its status gives the same result; and the call
  fails exactly when the request cannot be built or sent, or the body does not decode.
\<close>

theorem FetchRegistryToken_ignores_status:
  "(url_parse_error w (token_url library img) = None \<and>
    http_do w h (token_request library img) = Inr res \<longrightarrow>
      (\<forall>t. Decode w unmarshal_string ''token'' (Body res) [] = Inr t \<longrightarrow>
         fst (FetchRegistryToken w library img h) = (t, None)) \<and>
      ((\<exists>j. read_json w (Body res) = Inr j \<and> token_body j) \<longleftrightarrow>
         snd (fst (FetchRegistryToken w library img h)) = None) \<and>
      (\<forall>w' s. url_parse_error w' (token_url library img) = None \<and> read_json w' = read_json w \<and>
           http_do w' h (token_request library img) = Inr (res\<lparr>StatusCode := s\<rparr>) \<longrightarrow>
         FetchRegistryToken w' library img h = FetchRegistryToken w library img h))
   \<and> (snd (fst (FetchRegistryToken w library img h)) \<noteq> None \<longleftrightarrow>
        url_parse_error w (token_url library img) \<noteq> None \<or>
        (\<exists>e. http_do w h (token_request library img) = Inl e) \<or>
        (\<exists>res. http_do w h (token_request library img) = Inr res \<and>
           \<not> (\<exists>j. read_json w (Body res) = Inr j \<and> token_body j)))"
proof (intro conjI impI allI)
  fix t
  assume "url_parse_error w (token_url library img) = None \<and>
    http_do w h (token_request library img) = Inr res"
    and "Decode w unmarshal_string ''token'' (Body res) [] = Inr t"
  then show "fst (FetchRegistryToken w library img h) = (t, None)"
    by (simp add: FetchRegistryToken_def)
next
  assume a: "url_parse_error w (token_url library img) = None \<and>
    http_do w h (token_request library img) = Inr res"
  show "(\<exists>j. read_json w (Body res) = Inr j \<and> token_body j) \<longleftrightarrow>
      snd (fst (FetchRegistryToken w library img h)) = None"
    unfolding Decode_token_ok_iff [symmetric]
    using a by (cases "Decode w unmarshal_string ''token'' (Body res) []")
      (simp_all add: FetchRegistryToken_def)
next
  fix w' :: world and s
  assume a: "url_parse_error w (token_url library img) = None \<and>
    http_do w h (token_request library img) = Inr res"
    and b: "url_parse_error w' (token_url library img) = None \<and> read_json w' = read_json w \<and>
      http_do w' h (token_request library img) = Inr (res\<lparr>StatusCode := s\<rparr>)"
  then show "FetchRegistryToken w' library img h = FetchRegistryToken w library img h"
    by (simp add: FetchRegistryToken_def Decode_def)
next
  show "snd (fst (FetchRegistryToken w library img h)) \<noteq> None \<longleftrightarrow>
      url_parse_error w (token_url library img) \<noteq> None \<or>
      (\<exists>e. http_do w h (token_request library img) = Inl e) \<or>
      (\<exists>res. http_do w h (token_request library img) = Inr res \<and>
         \<not> (\<exists>j. read_json w (Body res) = Inr j \<and> token_body j))"
    unfolding Decode_token_ok_iff [symmetric]
    by (cases "url_parse_error w (token_url library img)";
        cases "http_do w h (token_request library img)")
       (auto simp: FetchRegistryToken_def Let_def split: sum.splits)
qed

theorem FetchRegistryToken_ignores_status_witness:
  "fst (FetchRegistryToken
          (scripted_world [status_reply 503 ''{\"token\":\"abc\"}'']
             [(''{\"token\":\"abc\"}'', JObject [(''token'', JString ''abc'')])] [] [] []
             (Ran (Exited 0)))
          ''library'' ''alpine'' [])
     = (''abc'', None)"
proof -
  let ?w = "scripted_world [status_reply 503 ''{\"token\":\"abc\"}'']
             [(''{\"token\":\"abc\"}'', JObject [(''token'', JString ''abc'')])] [] [] []
             (Ran (Exited 0))"
  let ?res = "\<lparr>StatusCode = 503, Body = \<lparr>Data = ''{\"token\":\"abc\"}'', ReadErr = None\<rparr>\<rparr>"
  have sent: "url_parse_error ?w (token_url ''library'' ''alpine'') = None \<and>
      http_do ?w [] (token_request ''library'' ''alpine'') = Inr ?res"
    by (simp add: scripted_simps)
  have decoded: "Decode ?w unmarshal_string ''token'' (Body ?res) [] = Inr ''abc''"
    by (simp add: Decode_def scripted_simps)
  from FetchRegistryToken_ignores_status [of ?w "''library''" "''alpine''" "[]" ?res,
      THEN conjunct1, THEN mp, OF sent, THEN conjunct1, THEN spec, THEN mp, OF decoded]
  show ?thesis .
qed

text \<open>
  Claim C9 as stated fails: a body can be valid JSON and still not decode. The reader
  accepts \<open>{"token":5}\<close>, the number does not fit the string field, and the call fails
  although the status is 200.
\<close>

theorem FetchRegistryToken_fails_on_valid_JSON_of_wrong_type:
  "read_json
       (scripted_world [ok_reply ''{\"token\":5}'']
          [(''{\"token\":5}'', JObject [(''token'', JNumber ''5'')])] [] [] [] (Ran (Exited 0)))
       \<lparr>Data = ''{\"token\":5}'', ReadErr = None\<rparr>
     = Inr (JObject [(''token'', JNumber ''5'')])
   \<and> FetchRegistryToken
       (scripted_world [ok_reply ''{\"token\":5}'']
          [(''{\"token\":5}'', JObject [(''token'', JNumber ''5'')])] [] [] [] (Ran (Exited 0)))
       ''library'' ''alpine'' []
     = (([], Some (DecodeError (UnmarshalTypeError ''number'' ''string''))),
        [HttpDo (token_request ''library'' ''alpine'')])"
  by (simp add: FetchRegistryToken_def Decode_def scripted_simps)



section \<open>Layer materializer: order of the layer loop\<close>

lemma FetchLayer_trace:
  "FetchLayer w library img l token h = ((d, r), h1) \<Longrightarrow>
     (h1 = h \<or> h1 = h @ [HttpDo (blob_request library img l token)]) \<and>
     (r = None \<longrightarrow> h1 = h @ [HttpDo (blob_request library img l token)])"
  by (auto simp: FetchLayer_def Let_def split: option.splits sum.splits if_splits)

lemma untar_trace:
  "untar w dir d h = (r, h2) \<Longrightarrow>
     h2 = h @ [RunTar (tar_args dir) d] @ map FsCreate (tar_created (run_tar w h (tar_args dir) d)) \<and>
     r = Cmd_Run_error (tar_result (run_tar w h (tar_args dir) d))"
  by (auto simp: untar_def Let_def)

lemma layers_step:
  assumes "FetchImageTo_layers w library img dir token (layer # layers) h = (r, h')"
  obtains
    (fetch_failed) d err where
      "FetchLayer w library img layer token (h @ [Log (download_line library img layer) None])
         = ((d, Some err), h')" "r = Some err"
  | (untar_failed) d re where
      "FetchLayer w library img layer token (h @ [Log (download_line library img layer) None])
         = ((d, None), h @ [Log (download_line library img layer) None,
                            HttpDo (blob_request library img layer token)])"
      "untar w dir d (h @ [Log (download_line library img layer) None,
                            HttpDo (blob_request library img layer token)]) = (Some re, h')"
      "r = Some (UntarFailed re)"
  | (next_layer) d c where
      "FetchLayer w library img layer token (h @ [Log (download_line library img layer) None])
         = ((d, None), h @ [Log (download_line library img layer) None,
                            HttpDo (blob_request library img layer token)])"
      "untar w dir d (h @ [Log (download_line library img layer) None,
                            HttpDo (blob_request library img layer token)])
         = (None, h @ layer_events library img dir token layer (d, c))"
      "FetchImageTo_layers w library img dir token layers
         (h @ layer_events library img dir token layer (d, c)) = (r, h')"
proof -
  let ?h0 = "h @ [Log (download_line library img layer) None]"
  obtain d fr h1 where F: "FetchLayer w library img layer token ?h0 = ((d, fr), h1)"
    by (metis prod.exhaust)
  show thesis
  proof (cases fr)
    case (Some err)
    with assms F have "h' = h1" "r = Some err" by simp_all
    with F Some show thesis using fetch_failed by simp
  next
    case None
    with FetchLayer_trace [OF F]
    have h1: "h1 = h @ [Log (download_line library img layer) None,
                        HttpDo (blob_request library img layer token)]" by simp
    obtain ur h2 where U: "untar w dir d h1 = (ur, h2)" by (cases "untar w dir d h1")
    from untar_trace [OF U] obtain c where
      h2: "h2 = h1 @ [RunTar (tar_args dir) d] @ map FsCreate c" by blast
    show thesis
    proof (cases ur)
      case (Some re)
      with assms F None U have "h' = h2" "r = Some (UntarFailed re)" by simp_all
      with F None U Some h1 show thesis using untar_failed by simp
    next
      case ur: None
      with assms F None U
      have rec: "FetchImageTo_layers w library img dir token layers h2 = (r, h')" by simp
      from h1 h2 have "h2 = h @ layer_events library img dir token layer (d, c)"
        by (simp add: layer_events_def)
      with F None U ur h1 rec show thesis using next_layer by simp
    qed
  qed
qed

lemma before_layer_0 [simp]: "before_layer library img dir token layers dcs h 0 = h"
  by (simp add: before_layer_def)

lemma before_layer_Suc [simp]:
  "before_layer library img dir token (layer # layers) (dc # dcs) h (Suc k)
     = before_layer library img dir token layers dcs
         (h @ layer_events library img dir token layer dc) k"
  by (simp add: before_layer_def)



lemmas run_simps =
  FetchImageTo_def FetchRegistryToken_def ListManifests_def ListLayers_def FetchLayer_def
  untar_def Decode_def tar_args_def download_line_def



section \<open>Layer materializer: paths\<close>











section \<open>The pipeline: manifest not found\<close>

lemma FetchRegistryToken_ok_trace:
  "FetchRegistryToken w library img h = ((token, None), h1) \<Longrightarrow>
     h1 = h @ [HttpDo (token_request library img)]"
  by (auto simp: FetchRegistryToken_def Let_def split: option.splits sum.splits)

lemma ListManifests_ok_trace:
  "ListManifests w library img token h = ((manifests, None), h1) \<Longrightarrow>
     h1 = h @ [HttpDo (manifests_request library img token)]"
  by (auto simp: ListManifests_def Let_def split: option.splits sum.splits if_splits)

lemma blob_request_not_token_request:
  "blob_request library' img' l t \<noteq> token_request library img"
proof
  assume "blob_request library' img' l t = token_request library img"
  then have "Header (blob_request library' img' l t) ''Authorization''
      = Header (token_request library img) ''Authorization''" by simp
  then show False by (simp add: blob_request_def token_request_def)
qed

lemma blob_request_not_manifests_request:
  "blob_request library' img' l t \<noteq> manifests_request library img token"
proof
  assume "blob_request library' img' l t = manifests_request library img token"
  then have "Header (blob_request library' img' l t) ''Accept''
      = Header (manifests_request library img token) ''Accept''" by simp
  then show False by (simp add: blob_request_def manifests_request_def)
qed

text \<open>
  Claim C6. When no manifest of the fetched manifest list matches the host platform,
  \<open>FetchImageTo\<close> fails with "manifest not found" having sent the token request and the
  manifest-list request and nothing else: no blob request, for any layer, is among the
  requests. The program then exits with status 1 without launching anything.
\<close>

theorem manifest_not_found_fetches_no_layer:
  "(FetchRegistryToken w library img h = ((token, None), h1) \<and>
    ListManifests w library img token h1 = ((manifests, None), h2) \<and>
    \<not> snd (FindManifest manifests \<lparr>Architecture = GOARCH w, OS = GOOS w\<rparr>) \<longrightarrow>
      FetchImageTo w library img dir h
        = (Some ManifestNotFound,
           h @ [HttpDo (token_request library img), HttpDo (manifests_request library img token)]) \<and>
      (\<forall>library' img' l t.
         HttpDo (blob_request library' img' l t)
           \<notin> set [HttpDo (token_request library img),
                   HttpDo (manifests_request library img token)]))
   \<and> (args \<noteq> [] \<and> mkdir_temp w h ''jail-'' = Inr jail \<and>
    FetchRegistryToken w ''library'' img (h @ [MkdirTemp ''jail-'']) = ((token, None), h1) \<and>
    ListManifests w ''library'' img token h1 = ((manifests, None), h2) \<and>
    \<not> snd (FindManifest manifests \<lparr>Architecture = GOARCH w, OS = GOOS w\<rparr>) \<longrightarrow>
      main w img args h
        = (1, h @ [MkdirTemp ''jail-'', HttpDo (token_request ''library'' img),
                   HttpDo (manifests_request ''library'' img token),
                   Log ''failed to fetch image: '' (Some ManifestNotFound)]))"
proof (intro conjI impI allI)
  assume a: "FetchRegistryToken w library img h = ((token, None), h1) \<and>
    ListManifests w library img token h1 = ((manifests, None), h2) \<and>
    \<not> snd (FindManifest manifests \<lparr>Architecture = GOARCH w, OS = GOOS w\<rparr>)"
  from a have h1: "h1 = h @ [HttpDo (token_request library img)]"
    by (blast dest: FetchRegistryToken_ok_trace)
  from a have h2: "h2 = h1 @ [HttpDo (manifests_request library img token)]"
    by (blast dest: ListManifests_ok_trace)
  obtain m where "FindManifest manifests \<lparr>Architecture = GOARCH w, OS = GOOS w\<rparr> = (m, False)"
    using a by (cases "FindManifest manifests \<lparr>Architecture = GOARCH w, OS = GOOS w\<rparr>") simp
  with a h1 h2 show "FetchImageTo w library img dir h
        = (Some ManifestNotFound,
           h @ [HttpDo (token_request library img), HttpDo (manifests_request library img token)])"
    by (simp add: FetchImageTo_def)
next
  fix library' img' l t
  show "HttpDo (blob_request library' img' l t)
           \<notin> set [HttpDo (token_request library img),
                   HttpDo (manifests_request library img token)]"
    by (simp add: blob_request_not_token_request blob_request_not_manifests_request)
next
  assume a: "args \<noteq> [] \<and> mkdir_temp w h ''jail-'' = Inr jail \<and>
    FetchRegistryToken w ''library'' img (h @ [MkdirTemp ''jail-'']) = ((token, None), h1) \<and>
    ListManifests w ''library'' img token h1 = ((manifests, None), h2) \<and>
    \<not> snd (FindManifest manifests \<lparr>Architecture = GOARCH w, OS = GOOS w\<rparr>)"
  from a have h1: "h1 = (h @ [MkdirTemp ''jail-'']) @ [HttpDo (token_request ''library'' img)]"
    by (blast dest: FetchRegistryToken_ok_trace)
  from a have h2: "h2 = h1 @ [HttpDo (manifests_request ''library'' img token)]"
    by (blast dest: ListManifests_ok_trace)
  obtain m where "FindManifest manifests \<lparr>Architecture = GOARCH w, OS = GOOS w\<rparr> = (m, False)"
    using a by (cases "FindManifest manifests \<lparr>Architecture = GOARCH w, OS = GOOS w\<rparr>") simp
  with a h1 h2 have "FetchImageTo w ''library'' img jail (h @ [MkdirTemp ''jail-''])
        = (Some ManifestNotFound,
           h @ [MkdirTemp ''jail-'', HttpDo (token_request ''library'' img),
                HttpDo (manifests_request ''library'' img token)])"
    by (simp add: FetchImageTo_def)
  with a show "main w img args h
        = (1, h @ [MkdirTemp ''jail-'', HttpDo (token_request ''library'' img),
                   HttpDo (manifests_request ''library'' img token),
                   Log ''failed to fetch image: '' (Some ManifestNotFound)])"
    by (simp add: main_def os_Exit_def)
qed

theorem manifest_not_found_fetches_no_layer_witness:
  "FetchImageTo arm_only_world ''library'' ''alpine'' ''/tmp/jail-1'' []
     = (Some ManifestNotFound,
        [] @ [HttpDo (token_request ''library'' ''alpine''),
              HttpDo (manifests_request ''library'' ''alpine'' ''t'')])
   \<and> main arm_only_world ''alpine'' [''/bin/true''] []
     = (1, [] @ [MkdirTemp ''jail-'', HttpDo (token_request ''library'' ''alpine''),
                 HttpDo (manifests_request ''library'' ''alpine'' ''t''),
                 Log ''failed to fetch image: '' (Some ManifestNotFound)])"
proof -
  let ?ms = "[demo_manifest ''m0'' ''arm64'']"
  have pull: "FetchRegistryToken arm_only_world ''library'' ''alpine'' []
        = ((''t'', None), [HttpDo (token_request ''library'' ''alpine'')]) \<and>
      ListManifests arm_only_world ''library'' ''alpine'' ''t''
          [HttpDo (token_request ''library'' ''alpine'')]
        = ((?ms, None), [HttpDo (token_request ''library'' ''alpine''),
                         HttpDo (manifests_request ''library'' ''alpine'' ''t'')]) \<and>
      \<not> snd (FindManifest ?ms \<lparr>Architecture = GOARCH arm_only_world, OS = GOOS arm_only_world\<rparr>)"
    by (simp add: run_simps scripted_simps demo_simps)
  have run: "[''/bin/true''] \<noteq> [] \<and> mkdir_temp arm_only_world [] ''jail-'' = Inr ''/tmp/jail-1'' \<and>
      FetchRegistryToken arm_only_world ''library'' ''alpine'' ([] @ [MkdirTemp ''jail-''])
        = ((''t'', None), [MkdirTemp ''jail-'', HttpDo (token_request ''library'' ''alpine'')]) \<and>
      ListManifests arm_only_world ''library'' ''alpine'' ''t''
          [MkdirTemp ''jail-'', HttpDo (token_request ''library'' ''alpine'')]
        = ((?ms, None), [MkdirTemp ''jail-'', HttpDo (token_request ''library'' ''alpine''),
                         HttpDo (manifests_request ''library'' ''alpine'' ''t'')]) \<and>
      \<not> snd (FindManifest ?ms \<lparr>Architecture = GOARCH arm_only_world, OS = GOOS arm_only_world\<rparr>)"
    by (simp add: run_simps scripted_simps demo_simps)
  note nf = manifest_not_found_fetches_no_layer
  from nf [THEN conjunct1, THEN mp, OF pull, THEN conjunct1]
  have "FetchImageTo arm_only_world ''library'' ''alpine'' ''/tmp/jail-1'' []
     = (Some ManifestNotFound,
        [] @ [HttpDo (token_request ''library'' ''alpine''),
              HttpDo (manifests_request ''library'' ''alpine'' ''t'')])" .
  moreover from nf [THEN conjunct2, THEN mp, OF run]
  have "main arm_only_world ''alpine'' [''/bin/true''] []
     = (1, [] @ [MkdirTemp ''jail-'', HttpDo (token_request ''library'' ''alpine''),
                 HttpDo (manifests_request ''library'' ''alpine'' ''t''),
                 Log ''failed to fetch image: '' (Some ManifestNotFound)])" .
  ultimately show ?thesis by (rule conjI)
qed

section \<open>Entry point: exit status and the launched command\<close>

lemma launches_append: "launches (xs @ ys) = launches xs @ launches ys"
  by (induction xs rule: launches.induct) simp_all

lemma launches_FsCreate: "launches (map FsCreate c) = []"
  by (induction c) simp_all

lemma FetchRegistryToken_launches:
  "launches (snd (FetchRegistryToken w library img h)) = launches h"
  by (auto simp: FetchRegistryToken_def Let_def launches_append split: option.splits sum.splits)

lemma ListManifests_launches:
  "launches (snd (ListManifests w library img token h)) = launches h"
  by (auto simp: ListManifests_def Let_def launches_append split: option.splits sum.splits)

lemma ListLayers_launches:
  "launches (snd (ListLayers w library img m token h)) = launches h"
  by (auto simp: ListLayers_def Let_def launches_append split: option.splits sum.splits)

lemma layers_launches:
  "FetchImageTo_layers w library img dir token layers h = (r, h') \<Longrightarrow> launches h' = launches h"
proof (induction layers arbitrary: h)
  case Nil
  then show ?case by simp
next
  case (Cons layer layers)
  from Cons.prems show ?case
  proof (cases rule: layers_step)
    case (fetch_failed d err)
    from FetchLayer_trace [OF fetch_failed(1)] show ?thesis
      by (auto simp: launches_append)
  next
    case (untar_failed d re)
    from untar_trace [OF untar_failed(2)] show ?thesis
      by (simp add: launches_append launches_FsCreate)
  next
    case (next_layer d c)
    from Cons.IH [OF next_layer(3)] show ?thesis
      by (simp add: layer_events_def launches_append launches_FsCreate)
  qed
qed

lemma FetchImageTo_launches:
  "launches (snd (FetchImageTo w library img dir h)) = launches h"
proof -
  obtain t tr h1 where T: "FetchRegistryToken w library img h = ((t, tr), h1)"
    by (metis prod.exhaust)
  obtain ms mr h2 where M: "ListManifests w library img t h1 = ((ms, mr), h2)"
    by (metis prod.exhaust)
  obtain m ok where F: "FindManifest ms \<lparr>Architecture = GOARCH w, OS = GOOS w\<rparr> = (m, ok)"
    by (metis prod.exhaust)
  obtain ls lr h3 where L: "ListLayers w library img m t h2 = ((ls, lr), h3)"
    by (metis prod.exhaust)
  obtain r h4 where R: "FetchImageTo_layers w library img dir t ls h3 = (r, h4)"
    by (metis prod.exhaust)
  from T FetchRegistryToken_launches [of w library img h] have 1: "launches h1 = launches h"
    by simp
  from M ListManifests_launches [of w library img t h1] have 2: "launches h2 = launches h1"
    by simp
  from L ListLayers_launches [of w library img m t h2] have 3: "launches h3 = launches h2"
    by simp
  from layers_launches [OF R] have 4: "launches h4 = launches h3" .
  from T M F L R 1 2 3 4 show ?thesis
    by (cases tr; cases mr; cases ok; cases lr) (simp_all add: FetchImageTo_def)
qed

text \<open>
  Claim C3. When the child starts and ends with a non-zero exit status, the exit status of
  the whole program is that status. When the pipeline fails before the launch (no command
  given, the directory cannot be created, or fetching the image fails) the exit status is 1
  and nothing is launched.
\<close>

theorem main_exit_status:
  "(args \<noteq> [] \<and> mkdir_temp w h ''jail-'' = Inr jail \<and>
    FetchImageTo w ''library'' img jail (h @ [MkdirTemp ''jail-'']) = (None, h1) \<and>
    run_child w h1 (child_Cmd jail args) = Ran (Exited s) \<and> s \<noteq> 0 \<longrightarrow>
      fst (main w img args h) = s \<and>
      launches (snd (main w img args h)) = launches h @ [child_Cmd jail args])
   \<and> (args = [] \<longrightarrow>
      fst (main w img args h) = 1 \<and> launches (snd (main w img args h)) = launches h)
   \<and> (args \<noteq> [] \<and> mkdir_temp w h ''jail-'' = Inl e \<longrightarrow>
      fst (main w img args h) = 1 \<and> launches (snd (main w img args h)) = launches h)
   \<and> (args \<noteq> [] \<and> mkdir_temp w h ''jail-'' = Inr jail \<and>
    fst (FetchImageTo w ''library'' img jail (h @ [MkdirTemp ''jail-''])) = Some err \<longrightarrow>
      fst (main w img args h) = 1 \<and> launches (snd (main w img args h)) = launches h)"
proof (intro conjI impI)
  assume a: "args \<noteq> [] \<and> mkdir_temp w h ''jail-'' = Inr jail \<and>
    FetchImageTo w ''library'' img jail (h @ [MkdirTemp ''jail-'']) = (None, h1) \<and>
    run_child w h1 (child_Cmd jail args) = Ran (Exited s) \<and> s \<noteq> 0"
  then show "fst (main w img args h) = s"
    by (simp add: main_def os_Exit_def)
  from a FetchImageTo_launches [of w "''library''" img jail "h @ [MkdirTemp ''jail-'']"]
  have "launches h1 = launches h" by (simp add: launches_append)
  with a show "launches (snd (main w img args h)) = launches h @ [child_Cmd jail args]"
    by (simp add: main_def launches_append)
next
  assume "args = []"
  then show "fst (main w img args h) = 1" "launches (snd (main w img args h)) = launches h"
    by (simp_all add: main_def os_Exit_def launches_append)
next
  assume "args \<noteq> [] \<and> mkdir_temp w h ''jail-'' = Inl e"
  then show "fst (main w img args h) = 1" "launches (snd (main w img args h)) = launches h"
    by (simp_all add: main_def os_Exit_def launches_append)
next
  assume a: "args \<noteq> [] \<and> mkdir_temp w h ''jail-'' = Inr jail \<and>
    fst (FetchImageTo w ''library'' img jail (h @ [MkdirTemp ''jail-''])) = Some err"
  obtain h1 where f: "FetchImageTo w ''library'' img jail (h @ [MkdirTemp ''jail-'']) = (Some err, h1)"
    using a by (cases "FetchImageTo w ''library'' img jail (h @ [MkdirTemp ''jail-''])") simp
  with a show "fst (main w img args h) = 1"
    by (simp add: main_def os_Exit_def)
  from f FetchImageTo_launches [of w "''library''" img jail "h @ [MkdirTemp ''jail-'']"]
  have "launches h1 = launches h" by (simp add: launches_append)
  with a f show "launches (snd (main w img args h)) = launches h"
    by (simp add: main_def launches_append)
qed

theorem main_exit_status_witness:
  "fst (main (demo_world [ok_reply ''b1'', ok_reply ''b2''] lenient_tar (Ran (Exited 3)))
          ''alpine'' [''/bin/false''] []) = 3
   \<and> fst (main arm_only_world ''alpine'' [] []) = 1
   \<and> fst (main (arm_only_world\<lparr>mkdir_temp := \<lambda>h pattern. Inl ''no space left on device''\<rparr>)
          ''alpine'' [''/bin/true''] []) = 1
   \<and> fst (main arm_only_world ''alpine'' [''/bin/true''] []) = 1
   \<and> launches (snd (main arm_only_world ''alpine'' [''/bin/true''] [])) = launches []"
proof -
  let ?w = "demo_world [ok_reply ''b1'', ok_reply ''b2''] lenient_tar (Ran (Exited 3))"
  let ?full = "arm_only_world\<lparr>mkdir_temp := \<lambda>h pattern. Inl ''no space left on device''\<rparr>"
  have pulled: "FetchImageTo ?w ''library'' ''alpine'' ''/tmp/jail-1'' ([] @ [MkdirTemp ''jail-''])
      = (None,
         [MkdirTemp ''jail-'', HttpDo (token_request ''library'' ''alpine''),
          HttpDo (manifests_request ''library'' ''alpine'' ''t''),
          HttpDo (layers_request ''library'' ''alpine'' (demo_manifest ''m1'' ''amd64'') ''t'')]
         @ layer_events ''library'' ''alpine'' ''/tmp/jail-1'' ''t'' (demo_layer ''l1'')
             (''b1'', [''/tmp/jail-1/bin''])
         @ layer_events ''library'' ''alpine'' ''/tmp/jail-1'' ''t'' (demo_layer ''l2'')
             (''b2'', [''/tmp/jail-1/bin/sh'']))"
    by (simp add: run_simps scripted_simps demo_simps layer_events_def)
  have child: "[''/bin/false''] \<noteq> [] \<and> mkdir_temp ?w [] ''jail-'' = Inr ''/tmp/jail-1'' \<and>
      FetchImageTo ?w ''library'' ''alpine'' ''/tmp/jail-1'' ([] @ [MkdirTemp ''jail-''])
      = (None,
         [MkdirTemp ''jail-'', HttpDo (token_request ''library'' ''alpine''),
          HttpDo (manifests_request ''library'' ''alpine'' ''t''),
          HttpDo (layers_request ''library'' ''alpine'' (demo_manifest ''m1'' ''amd64'') ''t'')]
         @ layer_events ''library'' ''alpine'' ''/tmp/jail-1'' ''t'' (demo_layer ''l1'')
             (''b1'', [''/tmp/jail-1/bin''])
         @ layer_events ''library'' ''alpine'' ''/tmp/jail-1'' ''t'' (demo_layer ''l2'')
             (''b2'', [''/tmp/jail-1/bin/sh''])) \<and>
      run_child ?w
         ([MkdirTemp ''jail-'', HttpDo (token_request ''library'' ''alpine''),
          HttpDo (manifests_request ''library'' ''alpine'' ''t''),
          HttpDo (layers_request ''library'' ''alpine'' (demo_manifest ''m1'' ''amd64'') ''t'')]
         @ layer_events ''library'' ''alpine'' ''/tmp/jail-1'' ''t'' (demo_layer ''l1'')
             (''b1'', [''/tmp/jail-1/bin''])
         @ layer_events ''library'' ''alpine'' ''/tmp/jail-1'' ''t'' (demo_layer ''l2'')
             (''b2'', [''/tmp/jail-1/bin/sh'']))
         (child_Cmd ''/tmp/jail-1'' [''/bin/false'']) = Ran (Exited 3) \<and> (3 :: 8 word) \<noteq> 0"
    using pulled by (simp add: scripted_simps demo_simps)
  have nodisk: "[''/bin/true''] \<noteq> [] \<and> mkdir_temp ?full [] ''jail-'' = Inl ''no space left on device''"
    by simp
  have nofetch: "[''/bin/true''] \<noteq> [] \<and> mkdir_temp arm_only_world [] ''jail-'' = Inr ''/tmp/jail-1'' \<and>
      fst (FetchImageTo arm_only_world ''library'' ''alpine'' ''/tmp/jail-1'' ([] @ [MkdirTemp ''jail-'']))
        = Some ManifestNotFound"
    by (simp add: run_simps scripted_simps demo_simps)
  note st = main_exit_status
  from st [THEN conjunct1, THEN mp, OF child, THEN conjunct1]
  have "fst (main ?w ''alpine'' [''/bin/false''] []) = 3" .
  moreover from st [THEN conjunct2, THEN conjunct1, THEN mp, OF refl, THEN conjunct1]
  have "fst (main arm_only_world ''alpine'' [] []) = 1" .
  moreover from st [THEN conjunct2, THEN conjunct2, THEN conjunct1, THEN mp, OF nodisk,
      THEN conjunct1]
  have "fst (main ?full ''alpine'' [''/bin/true''] []) = 1" .
  moreover from st [THEN conjunct2, THEN conjunct2, THEN conjunct2, THEN mp, OF nofetch]
  have "fst (main arm_only_world ''alpine'' [''/bin/true''] []) = 1 \<and>
      launches (snd (main arm_only_world ''alpine'' [''/bin/true''] [])) = launches []" .
  ultimately show ?thesis by (intro conjI) simp_all
qed

text \<open>
  Claim C7 against the code. The executable of the child is the first positional argument,
  started with the new root as its root directory. Its argument vector is not the
  positional arguments: \<open>main\<close> stores the positional arguments after the first in
  \<open>Cmd.Args\<close>, which \<open>os/exec\<close> passes as the whole argument vector, so the command name is
  missing and the first argument of the command takes its place. For the command line
  \<open>/bin/echo hello world\<close> the child runs \<open>/bin/echo\<close> with the argument vector
  \<open>[hello, world]\<close>.
\<close>

theorem main_child_argv_omits_the_command:
  "launches (snd (main (demo_world [ok_reply ''b1'', ok_reply ''b2''] lenient_tar (Ran (Exited 0)))
       ''alpine'' [''/bin/echo'', ''hello'', ''world''] []))
     = [child_Cmd ''/tmp/jail-1'' [''/bin/echo'', ''hello'', ''world'']]
   \<and> Path (child_Cmd ''/tmp/jail-1'' [''/bin/echo'', ''hello'', ''world'']) = ''/bin/echo''
   \<and> Chroot (child_Cmd ''/tmp/jail-1'' [''/bin/echo'', ''hello'', ''world'']) = ''/tmp/jail-1''
   \<and> argv (child_Cmd ''/tmp/jail-1'' [''/bin/echo'', ''hello'', ''world'']) = [''hello'', ''world'']
   \<and> argv (child_Cmd ''/tmp/jail-1'' [''/bin/echo'', ''hello'', ''world''])
       \<noteq> [''/bin/echo'', ''hello'', ''world'']"
proof -
  have "snd (main (demo_world [ok_reply ''b1'', ok_reply ''b2''] lenient_tar (Ran (Exited 0)))
       ''alpine'' [''/bin/echo'', ''hello'', ''world''] [])
     = [MkdirTemp ''jail-'', HttpDo (token_request ''library'' ''alpine''),
        HttpDo (manifests_request ''library'' ''alpine'' ''t''),
        HttpDo (layers_request ''library'' ''alpine'' (demo_manifest ''m1'' ''amd64'') ''t'')]
       @ layer_events ''library'' ''alpine'' ''/tmp/jail-1'' ''t'' (demo_layer ''l1'')
           (''b1'', [''/tmp/jail-1/bin''])
       @ layer_events ''library'' ''alpine'' ''/tmp/jail-1'' ''t'' (demo_layer ''l2'')
           (''b2'', [''/tmp/jail-1/bin/sh''])
       @ [RunChild (child_Cmd ''/tmp/jail-1'' [''/bin/echo'', ''hello'', ''world''])]"
    by (simp add: main_def run_simps scripted_simps demo_simps layer_events_def)
  then show ?thesis
    by (simp add: layer_events_def child_Cmd_def argv_def)
qed

text \<open>
  In general: the child is started from \<open>child_Cmd\<close>, whose argument vector is the
  positional arguments without the first, or the executable path alone when there is one
  positional argument.
\<close>

lemma argv_child_Cmd:
  "args \<noteq> [] \<Longrightarrow>
     Path (child_Cmd jail args) = hd args \<and> Chroot (child_Cmd jail args) = jail \<and>
     Dir (child_Cmd jail args) = ''/'' \<and>
     argv (child_Cmd jail args) = (if tl args = [] then args else tl args)"
  by (cases args) (simp_all add: child_Cmd_def argv_def)

end
